theory Spec2Isabelle
  imports Main "HOL-Library.Sublist"
begin

section \<open>ScriptsNessAuth: the account and upload server of \<open>src/server.js\<close>\<close>

text \<open>
  The server is one Express application.  Its handlers are embedded as functions
  on an explicit state (the parsed \<open>users.json\<close>, the file system below the uploads
  directory, the session of the requesting client).  JavaScript strings are modelled
  as \<open>string\<close>: lists of code units below 256.  Library calls the handlers make
  (\<open>sanitize-filename\<close>, Node's \<open>path\<close>, \<open>String.prototype\<close> methods) are embedded
  by the algorithm the library runs; \<open>bcryptjs\<close> is taken as a parameter on strings.
  The fields of a login are JSON values, those of a registration are absent or strings.
\<close>

subsection \<open>Strings\<close>

definition code :: "char \<Rightarrow> nat" where
  \<comment> \<open>\<open>charCodeAt\<close>\<close>
  "code c = of_char c"

definition toLowerCaseChar :: "char \<Rightarrow> char" where
  \<comment> \<open>Unicode lower-casing restricted to code units below 256: A-Z, and the Latin-1
      capitals 0xC0-0xDE without the multiplication sign 0xD7.\<close>
  "toLowerCaseChar c =
     (if (65 \<le> code c \<and> code c \<le> 90) \<or> (192 \<le> code c \<and> code c \<le> 222 \<and> code c \<noteq> 215)
      then char_of (code c + 32) else c)"

definition toLowerCase :: "string \<Rightarrow> string" where
  "toLowerCase s = map toLowerCaseChar s"

definition startsWith :: "string \<Rightarrow> string \<Rightarrow> bool" where
  \<comment> \<open>\<open>s.startsWith(p)\<close>\<close>
  "startsWith s p = (take (length p) s = p)"

fun number_toString :: "nat \<Rightarrow> string" where
  \<comment> \<open>a non-negative integer converted to a string by \<open>+\<close>: its decimal digits\<close>
  "number_toString n =
     (if n < 10 then [char_of (48 + n)]
      else number_toString (n div 10) @ [char_of (48 + n mod 10)])"

declare number_toString.simps [simp del]

subsection \<open>The package \<open>sanitize-filename\<close>\<close>

text \<open>
  \<open>server.js\<close> line 5 binds \<open>sanitize\<close> to the package \<open>sanitize-filename\<close>, whose
  code is not part of \<open>src/\<close>.  The definitions follow the package's algorithm, called
  with no replacement option: five regular-expression replacements by the empty
  string, in this order, then truncation to 255 bytes of UTF-8:
  \<^verbatim>\<open>
  var illegalRe = /[\/\?<>\\:\*\|"]/g;
  var controlRe = /[\x00-\x1f\x80-\x9f]/g;
  var reservedRe = /^\.+$/;
  var windowsReservedRe = /^(con|prn|aux|nul|com[0-9]|lpt[0-9])(\..*)?$/i;
  var windowsTrailingRe = /[\. ]+$/;
  input.replace(illegalRe, '').replace(controlRe, '').replace(reservedRe, '')
       .replace(windowsReservedRe, '').replace(windowsTrailingRe, '')
  truncate(sanitized, 255)
  \<close>
\<close>

definition illegalRe :: "char \<Rightarrow> bool" where
  \<comment> \<open>the class \<open>/ ? < > \ : * | "\<close>\<close>
  "illegalRe c = (c \<in> set [CHR ''/'', CHR ''?'', CHR ''<'', CHR ''>'', CHR 0x5C, CHR '':'',
                            CHR ''*'', CHR ''|'', CHR 0x22])"

definition controlRe :: "char \<Rightarrow> bool" where
  "controlRe c = (code c \<le> 31 \<or> (128 \<le> code c \<and> code c \<le> 159))"

definition reservedRe :: "string \<Rightarrow> bool" where
  \<comment> \<open>the whole string is one or more periods\<close>
  "reservedRe s = (s \<noteq> [] \<and> list_all (\<lambda>c. c = CHR ''.'') s)"

definition asciiLower :: "char \<Rightarrow> char" where
  \<comment> \<open>the \<open>i\<close> flag on the letters of the pattern: a code unit matches a pattern letter
      when it is that letter in either ASCII case\<close>
  "asciiLower c = (if 65 \<le> code c \<and> code c \<le> 90 then char_of (code c + 32) else c)"

definition isDigit :: "char \<Rightarrow> bool" where
  "isDigit c = (48 \<le> code c \<and> code c \<le> 57)"

definition deviceName :: "string \<Rightarrow> bool" where
  \<comment> \<open>\<open>(con|prn|aux|nul|com[0-9]|lpt[0-9])\<close> against a whole string\<close>
  "deviceName s =
     (map asciiLower s \<in> set [''con'', ''prn'', ''aux'', ''nul'']
      \<or> (length s = 4 \<and> map asciiLower (take 3 s) \<in> set [''com'', ''lpt''] \<and> isDigit (s ! 3)))"

definition lineTerminator :: "char \<Rightarrow> bool" where
  \<comment> \<open>what \<open>.\<close> does not match, among code units below 256\<close>
  "lineTerminator c = (code c = 10 \<or> code c = 13)"

definition extensionTail :: "string \<Rightarrow> bool" where
  \<comment> \<open>\<open>(\..*)?$\<close> against the rest of the string\<close>
  "extensionTail r =
     (case r of [] \<Rightarrow> True | c # cs \<Rightarrow> c = CHR ''.'' \<and> \<not> list_ex lineTerminator cs)"

definition windowsReservedRe :: "string \<Rightarrow> bool" where
  "windowsReservedRe s =
     ((deviceName (take 3 s) \<and> extensionTail (drop 3 s))
      \<or> (deviceName (take 4 s) \<and> 4 \<le> length s \<and> extensionTail (drop 4 s)))"

definition trailing :: "char \<Rightarrow> bool" where
  \<comment> \<open>the class \<open>[\. ]\<close>\<close>
  "trailing c = (c = CHR ''.'' \<or> c = CHR '' '')"

definition stripTrailing :: "string \<Rightarrow> string" where
  \<comment> \<open>\<open>.replace(/[\. ]+$/, '')\<close>: the longest run of periods and spaces at the end goes\<close>
  "stripTrailing s = rev (dropWhile trailing (rev s))"

definition byteLength :: "char \<Rightarrow> nat" where
  \<comment> \<open>\<open>Buffer.byteLength\<close> of one code unit below 256, in UTF-8\<close>
  "byteLength c = (if code c < 128 then 1 else 2)"

fun truncateBytes :: "nat \<Rightarrow> nat \<Rightarrow> string \<Rightarrow> string" where
  \<comment> \<open>the loop of \<open>truncate-utf8-bytes\<close>: \<open>cur\<close> is \<open>curByteLength\<close>; it returns the
      slice that ends with the unit reaching \<open>limit\<close>, or before the one exceeding it\<close>
  "truncateBytes limit cur [] = []"
| "truncateBytes limit cur (c # cs) =
     (let cur' = cur + byteLength c in
      if cur' = limit then [c]
      else if cur' > limit then []
      else c # truncateBytes limit cur' cs)"

definition sanitize :: "string \<Rightarrow> string" where
  "sanitize input =
     (let s1 = filter (\<lambda>c. \<not> illegalRe c) input;
          s2 = filter (\<lambda>c. \<not> controlRe c) s1;
          s3 = (if reservedRe s2 then [] else s2);
          s4 = (if windowsReservedRe s3 then [] else s3);
          s5 = stripTrailing s4
      in truncateBytes 255 0 s5)"

subsection \<open>Node's \<open>path\<close> module (POSIX)\<close>

fun segments :: "string \<Rightarrow> string \<Rightarrow> string list" where
  \<comment> \<open>the pieces of a path between its \<open>/\<close>; \<open>cur\<close> is the piece being read\<close>
  "segments cur [] = [cur]"
| "segments cur (c # cs) =
     (if c = CHR ''/'' then cur # segments [] cs else segments (cur @ [c]) cs)"

fun normalizeString :: "string list \<Rightarrow> string list \<Rightarrow> string list" where
  \<comment> \<open>\<open>normalizeString(path, false)\<close>: \<open>..\<close> drops the last piece kept so far (none at
      the root), empty pieces and \<open>.\<close> are skipped\<close>
  "normalizeString res [] = res"
| "normalizeString res (seg # segs) =
     (if seg = ''..'' then normalizeString (butlast res) segs
      else if seg = [] \<or> seg = ''.'' then normalizeString res segs
      else normalizeString (res @ [seg]) segs)"

definition fromRoot :: "string list \<Rightarrow> string" where
  "fromRoot segs = (if segs = [] then ''/'' else concat (map (\<lambda>s. CHR ''/'' # s) segs))"

definition isAbsolute :: "string \<Rightarrow> bool" where
  "isAbsolute p = (case p of [] \<Rightarrow> False | c # _ \<Rightarrow> c = CHR ''/'')"

definition path_resolve :: "string \<Rightarrow> string \<Rightarrow> string" where
  \<comment> \<open>\<open>path.resolve(from, to)\<close> for an absolute \<open>from\<close> (\<open>UPLOADS_DIR\<close> is built from
      \<open>__dirname\<close>, so the working directory is never consulted): the arguments are
      taken from the right until one is absolute, then normalised\<close>
  "path_resolve from to =
     (let resolvedPath = (if isAbsolute to then to @ ''/'' else from @ ''/'' @ to @ ''/'')
      in fromRoot (normalizeString [] (segments [] resolvedPath)))"

definition path_join :: "string \<Rightarrow> string \<Rightarrow> string" where
  \<comment> \<open>\<open>path.join(a, b)\<close> for an absolute \<open>a\<close>: empty arguments are skipped, the rest is
      joined by \<open>/\<close> and normalised; a trailing \<open>/\<close> is kept\<close>
  "path_join a b =
     (let joined = (if b = [] then a else a @ ''/'' @ b);
          segs = normalizeString [] (segments [] joined)
      in if segs = [] then ''/''
         else fromRoot segs @ (if last joined = CHR ''/'' then ''/'' else []))"

definition lastComponent :: "string \<Rightarrow> string" where
  \<comment> \<open>the last piece of a path, trailing \<open>/\<close> ignored\<close>
  "lastComponent p =
     rev (takeWhile (\<lambda>c. c \<noteq> CHR ''/'') (dropWhile (\<lambda>c. c = CHR ''/'') (rev p)))"

definition extname :: "string \<Rightarrow> string" where
  \<comment> \<open>\<open>path.extname\<close>: from the last period of the last piece to its end; empty when
      there is no period, when the only period starts the piece, or for \<open>..\<close>\<close>
  "extname p =
     (let base = lastComponent p;
          ext = rev (takeWhile (\<lambda>c. c \<noteq> CHR ''.'') (rev base))
      in if CHR ''.'' \<notin> set base \<or> length ext + 1 = length base \<or> base = ''..'' then []
         else CHR ''.'' # ext)"

subsection \<open>State\<close>

record user =
  user_id :: nat
  username :: string
  passwordHash :: string

record snapshot =
  \<comment> \<open>the content of \<open>users.json\<close>\<close>
  users :: "user list"
  nextId :: nat

record session =
  userId :: nat
  session_username :: string

datatype node = File string | Dir

record world =
  store :: snapshot
  fs :: "string \<rightharpoonup> node"
  sess :: "session option"

definition initial_store :: snapshot where
  \<comment> \<open>line 20: what is written when \<open>users.json\<close> does not exist\<close>
  "initial_store = \<lparr>users = [], nextId = 1\<rparr>"

definition existsSync :: "(string \<rightharpoonup> node) \<Rightarrow> string \<Rightarrow> bool" where
  "existsSync f p = (f p \<noteq> None)"

definition ensureDir :: "(string \<rightharpoonup> node) \<Rightarrow> string \<Rightarrow> (string \<rightharpoonup> node)" where
  \<comment> \<open>\<open>if (!fs.existsSync(d)) fs.mkdirSync(d, { recursive: true })\<close>\<close>
  "ensureDir f d = (if existsSync f d then f else f(d \<mapsto> Dir))"

subsection \<open>Responses\<close>

datatype message =
    FieldsRequired      \<comment> \<open>'username e password sao obrigatorios'\<close>
  | InvalidUsername     \<comment> \<open>'username invalido'\<close>
  | UserExists          \<comment> \<open>'Usuario ja existe'\<close>
  | InvalidCredentials  \<comment> \<open>'Credenciais invalidas'\<close>
  | Unauthorized        \<comment> \<open>'Unauthorized'\<close>
  | NoFile              \<comment> \<open>'Nenhum arquivo enviado ou tipo nao permitido.'\<close>
  | BadRequest          \<comment> \<open>'Bad request'\<close>
  | NotFound            \<comment> \<open>'Arquivo nao encontrado'\<close>
  | IllegalArguments    \<comment> \<open>the \<open>Error\<close> \<open>bcrypt.compareSync\<close> throws for a password that is not a
                            string; no handler catches it, and Express answers with status 500\<close>

datatype upload_error =
    FileTypeNotAllowed  \<comment> \<open>the \<open>Error\<close> of \<open>fileFilter\<close>\<close>
  | NotAuthenticated    \<comment> \<open>the \<open>Error\<close> of \<open>destination\<close>\<close>
  | LIMIT_FILE_SIZE     \<comment> \<open>multer's error for a file over \<open>limits.fileSize\<close>\<close>

datatype response =
    Status nat message      \<comment> \<open>\<open>res.status(n)\<close> with the message\<close>
  | Ok string               \<comment> \<open>\<open>res.json({ ok: true, username })\<close>\<close>
  | Redirect string         \<comment> \<open>\<open>res.redirect\<close>\<close>
  | SendFile string         \<comment> \<open>\<open>res.sendFile\<close> of an absolute path\<close>
  | Failed upload_error     \<comment> \<open>an error handed to \<open>next\<close> by multer\<close>

subsection \<open>Registration and login\<close>

definition falsy :: "string option \<Rightarrow> bool" where
  \<comment> \<open>\<open>!x\<close> for a body field that is absent (\<open>None\<close>) or a string\<close>
  "falsy x = (case x of None \<Rightarrow> True | Some s \<Rightarrow> s = [])"

definition register ::
  "(string \<Rightarrow> string) \<Rightarrow> string \<Rightarrow> string option \<Rightarrow> string option \<Rightarrow> world \<Rightarrow> response \<times> world" where
  \<comment> \<open>\<open>app.post('/api/register')\<close>, lines 80-103; \<open>hashSync\<close> is \<open>bcrypt.hashSync(_, 10)\<close>\<close>
  "register hashSync UPLOADS_DIR username_field password_field w =
     (if falsy username_field \<or> falsy password_field then (Status 400 FieldsRequired, w)
      else
        let name = the username_field; password = the password_field;
            cleanUser = sanitize name
        in if cleanUser \<noteq> name then (Status 400 InvalidUsername, w)
           else
             let db = store w
             in if find (\<lambda>u. username u = name) (users db) \<noteq> None
                then (Status 400 UserExists, w)
                else
                  let hash = hashSync password;
                      u = \<lparr>user_id = nextId db, username = name, passwordHash = hash\<rparr>;
                      db' = db\<lparr>users := users db @ [u], nextId := nextId db + 1\<rparr>;
                      userDir = path_join UPLOADS_DIR (sanitize name)
                  in (Ok (username u),
                      w\<lparr>store := db', fs := ensureDir (fs w) userDir,
                        sess := Some \<lparr>userId = user_id u, session_username = username u\<rparr>\<rparr>))"

datatype body_value =
    \<comment> \<open>a field of \<open>req.body\<close> as \<open>express.json()\<close> (line 39) delivers it\<close>
    Absent | Null | Bool bool | Num int | Str string | Obj

definition falsyValue :: "body_value \<Rightarrow> bool" where
  \<comment> \<open>\<open>!x\<close>; objects and arrays (\<open>Obj\<close>) are truthy\<close>
  "falsyValue x =
     (case x of Absent \<Rightarrow> True | Null \<Rightarrow> True | Bool b \<Rightarrow> b = False | Num n \<Rightarrow> n = 0
      | Str s \<Rightarrow> s = [] | Obj \<Rightarrow> False)"

definition login ::
  "(string \<Rightarrow> string \<Rightarrow> bool) \<Rightarrow> body_value \<Rightarrow> body_value \<Rightarrow> world \<Rightarrow> response \<times> world" where
  \<comment> \<open>\<open>app.post('/api/login')\<close>, lines 105-120.  \<open>u.username === username\<close> holds only for
      a string equal to the stored name.  \<open>compareSync\<close> is \<open>bcrypt.compareSync\<close> on
      strings; called at line 113 with a password that is not a string it throws, and
      nothing catches the error.\<close>
  "login compareSync username_field password_field w =
     (if falsyValue username_field \<or> falsyValue password_field
      then (Status 400 FieldsRequired, w)
      else
        let db = store w
        in case find (\<lambda>u. Str (username u) = username_field) (users db) of
             None \<Rightarrow> (Status 400 InvalidCredentials, w)
           | Some u \<Rightarrow>
               (case password_field of
                  Str password \<Rightarrow>
                    if \<not> compareSync password (passwordHash u)
                    then (Status 400 InvalidCredentials, w)
                    else (Ok (username u),
                          w\<lparr>sess := Some \<lparr>userId = user_id u, session_username = username u\<rparr>\<rparr>)
                | _ \<Rightarrow> (Status 500 IllegalArguments, w)))"

subsection \<open>Upload\<close>

record upload_file =
  originalname :: string
  content :: string

definition requireLogin :: "session option \<Rightarrow> bool" where
  \<comment> \<open>lines 43-46: \<open>req.session && req.session.userId\<close>; an id of 0 is falsy\<close>
  "requireLogin s = (case s of None \<Rightarrow> False | Some x \<Rightarrow> userId x \<noteq> 0)"

definition ALLOWED_EXT :: "string set" where
  "ALLOWED_EXT = {''.lua'', ''.txt''}"

definition fileFilter :: "string \<Rightarrow> upload_error + bool" where
  \<comment> \<open>lines 65-71\<close>
  "fileFilter name =
     (let ext = toLowerCase (extname name)
      in if ext \<notin> ALLOWED_EXT then Inl FileTypeNotAllowed else Inr True)"

definition destination ::
  "string \<Rightarrow> session option \<Rightarrow> (string \<rightharpoonup> node) \<Rightarrow> upload_error + (string \<times> (string \<rightharpoonup> node))" where
  \<comment> \<open>lines 50-57\<close>
  "destination UPLOADS_DIR s f =
     (case s of
        None \<Rightarrow> Inl NotAuthenticated
      | Some x \<Rightarrow>
          if session_username x = [] then Inl NotAuthenticated
          else let userDir = path_join UPLOADS_DIR (sanitize (session_username x))
               in Inr (userDir, ensureDir f userDir))"

definition filename :: "nat \<Rightarrow> nat \<Rightarrow> string \<Rightarrow> string" where
  \<comment> \<open>lines 58-62; \<open>now\<close> is \<open>Date.now()\<close>, \<open>rnd\<close> is \<open>Math.round(Math.random() * 1e6)\<close>\<close>
  "filename now rnd orig =
     (let name = (if sanitize orig = [] then ''file'' else sanitize orig);
          unique = number_toString now @ ''-'' @ number_toString rnd
      in unique @ ''-'' @ name)"

definition fileSize :: nat where
  \<comment> \<open>line 76\<close>
  "fileSize = 5 * 1024 * 1024"

definition overLimit :: "nat \<Rightarrow> nat \<Rightarrow> bool" where
  \<comment> \<open>Modelled from the spec: the comparison multer makes between the bytes of a file and
      \<open>limits.fileSize\<close>; it is code of the package \<open>multer\<close>, not of \<open>src/\<close>.  The spec:
      "Total byte size must not exceed 5 MiB", "exactly 5 MiB is accepted".\<close>
  "overLimit limit n = (limit < n)"

definition upload ::
  "nat \<Rightarrow> nat \<Rightarrow> string \<Rightarrow> upload_file option \<Rightarrow> world \<Rightarrow> response \<times> world" where
  \<comment> \<open>\<open>app.post('/upload', requireLogin, upload.single('file'), ...)\<close>, lines 137-142.
      multer runs \<open>fileFilter\<close> on the headers of the file part, then the storage
      (\<open>destination\<close>, \<open>filename\<close>) while the bytes stream; a file found over the limit is
      removed again, the directory stays.\<close>
  "upload now rnd UPLOADS_DIR file w =
     (if \<not> requireLogin (sess w) then (Status 401 Unauthorized, w)
      else case file of
        None \<Rightarrow> (Status 400 NoFile, w)
      | Some f \<Rightarrow>
          (case fileFilter (originalname f) of
             Inl e \<Rightarrow> (Failed e, w)
           | Inr _ \<Rightarrow>
               (case destination UPLOADS_DIR (sess w) (fs w) of
                  Inl e \<Rightarrow> (Failed e, w)
                | Inr (userDir, fs1) \<Rightarrow>
                    let stored = path_join userDir (filename now rnd (originalname f))
                    in if overLimit fileSize (length (content f))
                       then (Failed LIMIT_FILE_SIZE, w\<lparr>fs := fs1\<rparr>)
                       else (Redirect ''/'', w\<lparr>fs := fs1(stored \<mapsto> File (content f))\<rparr>))))"

subsection \<open>Raw file server\<close>

definition raw :: "string \<Rightarrow> (string \<rightharpoonup> node) \<Rightarrow> string \<Rightarrow> string \<Rightarrow> response" where
  \<comment> \<open>\<open>app.get('/raw/:username/:filename')\<close>, lines 164-177; the parameters arrive
      percent-decoded\<close>
  "raw UPLOADS_DIR f username_param filename_param =
     (let name = sanitize username_param;
          userDir = path_resolve UPLOADS_DIR name;
          filePath = path_resolve userDir filename_param
      in if \<not> startsWith filePath userDir then Status 400 BadRequest
         else if \<not> existsSync f filePath then Status 404 NotFound
         else SendFile filePath)"

definition containsDotFile :: "string list \<Rightarrow> bool" where
  \<comment> \<open>\<open>containsDotFile(parts)\<close> of the package \<open>send\<close>: a part of two or more characters
      that begins with a period\<close>
  "containsDotFile parts = list_ex (\<lambda>part. 1 < length part \<and> hd part = CHR ''.'') parts"

definition dotfileIgnored :: "bool \<Rightarrow> string \<Rightarrow> bool" where
  \<comment> \<open>the dot-file test \<open>send\<close> makes for \<open>res.sendFile\<close> called without options.
      \<open>send\<close> 0.x (Express 4) ignores a path with a dot part only when the last part
      begins with a period; \<open>send\<close> 1.x (Express 5) ignores every such path.  \<open>src/\<close>
      does not fix the version, so \<open>strict\<close> says which rule runs.\<close>
  "dotfileIgnored strict p =
     (let parts = segments [] p
      in containsDotFile parts
         \<and> (strict \<or> (case last parts of [] \<Rightarrow> False | c # _ \<Rightarrow> c = CHR ''.'')))"

datatype served =
    Answer nat      \<comment> \<open>a response with this status and no file\<close>
  | Bytes string    \<comment> \<open>status 200 with the bytes of a file\<close>

definition sendFile :: "bool \<Rightarrow> (string \<rightharpoonup> node) \<Rightarrow> string \<Rightarrow> served" where
  \<comment> \<open>\<open>res.sendFile(p)\<close> for an absolute path without \<open>..\<close> parts: an ignored dot file
      and a missing path end in 404; for a directory \<open>send\<close> reports \<open>EISDIR\<close>, Express
      calls \<open>next()\<close> and no route is left, which is 404 again; a regular file is
      streamed\<close>
  "sendFile strict f p =
     (if dotfileIgnored strict p then Answer 404
      else case f p of
             Some (File bs) \<Rightarrow> Bytes bs
           | Some Dir \<Rightarrow> Answer 404
           | None \<Rightarrow> Answer 404)"



definition sent :: "(string \<rightharpoonup> node) \<Rightarrow> response \<Rightarrow> string option" where
  \<comment> \<open>the bytes a response carries under the stricter dot-file rule, hence under both\<close>
  "sent f r =
     (case r of
        SendFile p \<Rightarrow> (case sendFile True f p of Bytes bs \<Rightarrow> Some bs | Answer n \<Rightarrow> None)
      | _ \<Rightarrow> None)"


subsection \<open>Invariants and example states\<close>

definition store_invariant :: "snapshot \<Rightarrow> bool" where
  \<comment> \<open>ids issued so far lie below \<open>nextId\<close>, and no username occurs twice\<close>
  "store_invariant db =
     ((\<forall>u \<in> set (users db). user_id u < nextId db) \<and> distinct (map username (users db)))"

definition session_ok :: "world \<Rightarrow> bool" where
  \<comment> \<open>a session, when there is one, names its user: lines 100-101 and 117-118 store the
      username of a stored user, which line 82 has checked to be non-empty\<close>
  "session_ok w = (case sess w of None \<Rightarrow> True | Some s \<Rightarrow> session_username s \<noteq> [])"

definition example_hash :: "string \<Rightarrow> string" where
  "example_hash p = ''#'' @ p"

definition example_compare :: "string \<Rightarrow> string \<Rightarrow> bool" where
  "example_compare p h = (h = ''#'' @ p)"

definition example_world :: world where
  "example_world =
     \<lparr>store = \<lparr>users = [\<lparr>user_id = 1, username = ''alice'', passwordHash = ''#secret123''\<rparr>],
               nextId = 2\<rparr>,
      fs = map_of [(''/app/uploads'', Dir), (''/app/uploads/alice'', Dir)],
      sess = None\<rparr>"

definition example_logged_in :: world where
  "example_logged_in = example_world\<lparr>sess := Some \<lparr>userId = 1, session_username = ''alice''\<rparr>\<rparr>"

definition example_bytes :: "nat \<Rightarrow> string" where
  \<comment> \<open>a file body of \<open>n\<close> bytes\<close>
  "example_bytes n = replicate n (CHR ''x'')"

definition example_fs :: "string \<rightharpoonup> node" where
  \<comment> \<open>two users, \<open>alice\<close> and \<open>alice2\<close>; \<open>alice2\<close> has uploaded one file\<close>
  "example_fs = map_of [(''/app/uploads'', Dir), (''/app/uploads/alice'', Dir),
     (''/app/uploads/alice2'', Dir), (''/app/uploads/alice2/17-42-secret.txt'', File ''secret'')]"


definition bytes :: "string \<Rightarrow> nat" where
  \<comment> \<open>\<open>Buffer.byteLength\<close> of a string\<close>
  "bytes s = sum_list (map byteLength s)"

definition raw_userDir :: "string \<Rightarrow> string \<Rightarrow> string" where
  \<comment> \<open>the value of \<open>userDir\<close> in the raw handler, line 167\<close>
  "raw_userDir UPLOADS_DIR username_param = path_resolve UPLOADS_DIR (sanitize username_param)"

definition raw_filePath :: "string \<Rightarrow> string \<Rightarrow> string \<Rightarrow> string" where
  \<comment> \<open>the value of \<open>filePath\<close> in the raw handler, line 168\<close>
  "raw_filePath UPLOADS_DIR username_param filename_param =
     path_resolve (raw_userDir UPLOADS_DIR username_param) filename_param"

section \<open>Properties\<close>

subsection \<open>What the sanitizer lets through\<close>

lemma set_truncateBytes: "set (truncateBytes limit cur s) \<subseteq> set s"
  by (induction s arbitrary: cur) (auto simp: Let_def)

lemma set_stripTrailing: "set (stripTrailing s) \<subseteq> set s"
  unfolding stripTrailing_def using set_dropWhileD [of _ trailing "rev s"] by auto

lemma sanitize_stages:
  "\<exists>s4. sanitize x = truncateBytes 255 0 (stripTrailing s4)
     \<and> (s4 = [] \<or> s4 = filter (\<lambda>c. \<not> controlRe c) (filter (\<lambda>c. \<not> illegalRe c) x))"
  by (auto simp add: sanitize_def Let_def simp del: filter_filter)

lemma set_sanitize: "set (sanitize x) \<subseteq> {c \<in> set x. \<not> illegalRe c \<and> \<not> controlRe c}"
proof -
  obtain s4 where eq: "sanitize x = truncateBytes 255 0 (stripTrailing s4)"
    and s4: "s4 = [] \<or> s4 = filter (\<lambda>c. \<not> controlRe c) (filter (\<lambda>c. \<not> illegalRe c) x)"
    using sanitize_stages by blast
  have "set (sanitize x) \<subseteq> set s4"
    unfolding eq using set_truncateBytes [of 255 0 "stripTrailing s4"] set_stripTrailing [of s4]
    by (rule subset_trans)
  with s4 show ?thesis by auto
qed

lemma sanitize_no_separator:
  "CHR ''/'' \<notin> set (sanitize x) \<and> CHR 0x5C \<notin> set (sanitize x)"
  using set_sanitize [of x] by (auto simp: illegalRe_def)

lemma byteLength_pos: "0 < byteLength c"
  by (simp add: byteLength_def)

lemma bytes_Cons: "bytes (c # cs) = byteLength c + bytes cs"
  by (simp add: bytes_def)

lemma bytes_Nil: "bytes [] = 0"
  by (simp add: bytes_def)

lemma bytes_zero: "bytes s = 0 \<Longrightarrow> s = []"
  by (cases s) (auto simp: bytes_Cons byteLength_def split: if_splits)

lemma truncateBytes_bound:
  "cur \<le> limit \<Longrightarrow> cur + bytes (truncateBytes limit cur s) \<le> limit"
proof (induction s arbitrary: cur)
  case Nil
  then show ?case by (simp add: bytes_Nil)
next
  case (Cons c cs)
  show ?case
  proof (cases "cur + byteLength c < limit")
    case True
    with Cons.IH [of "cur + byteLength c"] show ?thesis
      by (simp add: Let_def bytes_Cons)
  next
    case False
    with Cons.prems show ?thesis
      by (simp add: Let_def bytes_Cons bytes_Nil)
  qed
qed

lemma truncateBytes_id:
  "cur + bytes s \<le> limit \<Longrightarrow> truncateBytes limit cur s = s"
proof (induction s arbitrary: cur)
  case Nil
  then show ?case by simp
next
  case (Cons c cs)
  show ?case
  proof (cases "cur + byteLength c = limit")
    case True
    with Cons.prems have "bytes cs = 0" by (simp add: bytes_Cons)
    then have "cs = []" by (rule bytes_zero)
    with True show ?thesis by (simp add: Let_def)
  next
    case False
    with Cons.prems Cons.IH [of "cur + byteLength c"] show ?thesis
      by (simp add: Let_def bytes_Cons)
  qed
qed

lemma bytes_sanitize: "bytes (sanitize x) \<le> 255"
proof -
  obtain s4 where "sanitize x = truncateBytes 255 0 (stripTrailing s4)"
    using sanitize_stages by blast
  then show ?thesis using truncateBytes_bound [of 0 255 "stripTrailing s4"] by simp
qed

lemma stripTrailing_id: "s = [] \<or> \<not> trailing (last s) \<Longrightarrow> stripTrailing s = s"
proof (cases "rev s")
  case Nil
  then show ?thesis by (simp add: stripTrailing_def)
next
  case (Cons a as)
  assume h: "s = [] \<or> \<not> trailing (last s)"
  from Cons have "s \<noteq> []" by auto
  moreover from Cons have "last s = a" by (metis last_rev list.sel(1) rev_rev_ident)
  ultimately have "\<not> trailing a" using h by simp
  with Cons have "dropWhile trailing (rev s) = rev s" by simp
  then show ?thesis by (simp add: stripTrailing_def)
qed

lemma reservedRe_trailing: "reservedRe s \<Longrightarrow> s \<noteq> [] \<and> trailing (last s)"
  by (auto simp: reservedRe_def trailing_def list_all_iff)

lemma filter_sanitize:
  "filter (\<lambda>c. \<not> controlRe c) (filter (\<lambda>c. \<not> illegalRe c) (sanitize x)) = sanitize x"
proof -
  have "\<forall>c \<in> set (sanitize x). \<not> illegalRe c \<and> \<not> controlRe c"
    using set_sanitize [of x] by auto
  then show ?thesis by (simp add: filter_id_conv)
qed

lemma sanitize_periods:
  assumes "name \<noteq> []" and "set name \<subseteq> {CHR ''.''}"
  shows "sanitize name = []"
proof -
  have keep: "\<forall>c \<in> set name. \<not> illegalRe c \<and> \<not> controlRe c"
    using assms(2) by (auto simp: illegalRe_def controlRe_def code_def)
  then have f: "filter (\<lambda>c. \<not> controlRe c) (filter (\<lambda>c. \<not> illegalRe c) name) = name"
    by (simp add: filter_id_conv)
  have r: "reservedRe name"
    using assms by (auto simp: reservedRe_def list_all_iff)
  have w: "\<not> windowsReservedRe []"
    by (simp add: windowsReservedRe_def deviceName_def)
  show ?thesis
    unfolding sanitize_def Let_def f using r w by (simp add: stripTrailing_def)
qed

lemma sanitize_file: "sanitize ''file'' = ''file''"
  by code_simp

subsection \<open>Login\<close>

lemma find_None_iff_username:
  "(find (\<lambda>u. username u = n) xs = None) = (n \<notin> username ` set xs)"
  by (induction xs) auto

lemma login_string_failures_alike:
  assumes "ua \<noteq> []" and "pa \<noteq> []" and "ub \<noteq> []" and "pb \<noteq> []"
    and "find (\<lambda>u. Str (username u) = Str ua) (users (store w)) = None"
    and "find (\<lambda>u. Str (username u) = Str ub) (users (store w)) = Some usr"
    and "\<not> compareSync pb (passwordHash usr)"
  shows "login compareSync (Str ua) (Str pa) w = (Status 400 InvalidCredentials, w)
       \<and> login compareSync (Str ub) (Str pb) w = (Status 400 InvalidCredentials, w)"
  using assms by (simp add: login_def falsyValue_def)

text \<open>
  Claim C7.  Lines 111 and 114 give the same answer, status 400 with one message, to
  a login for an unknown user and to a login with a wrong password, and for string
  passwords that is all an observer sees (the lemma above).  A password that is a JSON
  number passes \<open>!password\<close> at line 107.  For an unknown user the answer is still the
  400 of line 111; for a stored user line 113 calls \<open>bcrypt.compareSync\<close> with the
  number, which throws, and the answer is 500.  The two cases are told apart.
\<close>

theorem login_number_password_tells_users_apart:
  "login example_compare (Str ''bob'') (Num 123) example_world
     = (Status 400 InvalidCredentials, example_world)
   \<and> login example_compare (Str ''alice'') (Num 123) example_world
     = (Status 500 IllegalArguments, example_world)
   \<and> find (\<lambda>u. username u = ''bob'') (users (store example_world)) = None
   \<and> find (\<lambda>u. username u = ''alice'') (users (store example_world))
     = Some \<lparr>user_id = 1, username = ''alice'', passwordHash = ''#secret123''\<rparr>"
  by (simp add: login_def falsyValue_def example_world_def)

subsection \<open>Registration\<close>

text \<open>
  Claim C9.  A registration that fails leaves the whole state as it was: the store, the
  file system (so no upload directory appears) and the session.  The failures are a
  missing or empty username or password, a username the sanitizer changes, and a
  username already in the store; each answers with status 400.
\<close>

theorem register_failure_atomic:
  assumes "falsy un \<or> falsy pw \<or> sanitize (the un) \<noteq> the un
           \<or> find (\<lambda>u. username u = the un) (users (store w)) \<noteq> None"
  shows "snd (register hashSync U un pw w) = w
         \<and> (\<exists>m. fst (register hashSync U un pw w) = Status 400 m)"
  using assms by (auto simp: register_def Let_def)

theorem register_failure_atomic_witness:
  "snd (register example_hash ''/app/uploads'' (Some ''alice'') None example_world) = example_world
   \<and> snd (register example_hash ''/app/uploads'' (Some ''a/b'') (Some ''pw'') example_world)
       = example_world
   \<and> snd (register example_hash ''/app/uploads'' (Some ''alice'') (Some ''pw'') example_world)
       = example_world"
proof -
  have missing: "falsy None" by (simp add: falsy_def)
  have changed: "sanitize (the (Some ''a/b'')) \<noteq> the (Some ''a/b'')" by code_simp
  have taken: "find (\<lambda>u. username u = the (Some ''alice'')) (users (store example_world)) \<noteq> None"
    by (simp add: example_world_def)
  show ?thesis
    using register_failure_atomic [where pw = None and un = "Some ''alice''" and w = example_world
        and hashSync = example_hash and U = "''/app/uploads''"]
      register_failure_atomic [where un = "Some ''a/b''" and pw = "Some ''pw''" and w = example_world
        and hashSync = example_hash and U = "''/app/uploads''"]
      register_failure_atomic [where un = "Some ''alice''" and pw = "Some ''pw''"
        and w = example_world and hashSync = example_hash and U = "''/app/uploads''"]
      missing changed taken
    by blast
qed

text \<open>
  Claim C8.  The store written at start-up (no user, \<open>nextId\<close> 1) satisfies the
  invariant: \<open>nextId\<close> is above the id of every stored user, and no two stored users
  share a username (compared with \<open>===\<close>).  Every registration keeps it: a successful
  one appends a user with the old \<open>nextId\<close> and a username not found in the store, a
  failed one changes nothing.  Users are never removed, so the stored users are all
  the users ever issued.  Ids are counted in \<open>nat\<close>; the JavaScript number is exact
  below \<open>2^53\<close>.
\<close>

theorem store_invariant_preserved:
  "store_invariant initial_store
   \<and> (store_invariant (store w) \<longrightarrow>
        store_invariant (store (snd (register hashSync U un pw w))))"
proof
  show "store_invariant initial_store"
    by (simp add: store_invariant_def initial_store_def)
next
  show "store_invariant (store w) \<longrightarrow>
        store_invariant (store (snd (register hashSync U un pw w)))"
    by (auto simp: register_def Let_def store_invariant_def find_None_iff_username less_Suc_eq)
qed

theorem store_invariant_preserved_witness:
  "store_invariant (store example_world)
   \<and> store_invariant
       (store (snd (register example_hash ''/app/uploads'' (Some ''bob'') (Some ''pw'') example_world)))"
proof -
  have inv: "store_invariant (store example_world)"
    by (simp add: store_invariant_def example_world_def)
  show ?thesis
    using store_invariant_preserved [where w = example_world and hashSync = example_hash
        and U = "''/app/uploads''" and un = "Some ''bob''" and pw = "Some ''pw''"] inv
    by blast
qed

lemma sanitize_bob: "sanitize ''bob'' = ''bob''"
  by code_simp

lemma register_example_succeeds:
  "fst (register example_hash ''/app/uploads'' (Some ''bob'') (Some ''pw'') example_world) = Ok ''bob''
   \<and> users (store (snd (register example_hash ''/app/uploads'' (Some ''bob'') (Some ''pw'')
        example_world)))
      = [\<lparr>user_id = 1, username = ''alice'', passwordHash = ''#secret123''\<rparr>,
         \<lparr>user_id = 2, username = ''bob'', passwordHash = ''#pw''\<rparr>]"
  by (simp add: register_def falsy_def example_world_def example_hash_def Let_def sanitize_bob)

lemma find_Some_username: "find (\<lambda>u. username u = n) xs = Some u \<Longrightarrow> username u = n"
  by (induction xs) (auto split: if_splits)

lemma find_Some_holds: "find P xs = Some u \<Longrightarrow> P u"
  by (induction xs) (auto split: if_splits)

lemma sessions_name_their_user:
  "session_ok w \<Longrightarrow> session_ok (snd (register hashSync U un pw w))
     \<and> session_ok (snd (login compareSync username_field password_field w))"
  by (auto simp: session_ok_def register_def login_def falsy_def falsyValue_def Let_def
      split: option.splits body_value.splits dest: find_Some_username find_Some_holds)

subsection \<open>Upload\<close>

text \<open>
  Claim C5.  An upload request that carries a file is checked in this order, and the
  first failing check decides the answer: without a logged-in session the answer is
  401 Unauthorized; else, when the lower-cased extension of the original name is
  neither \<open>.lua\<close> nor \<open>.txt\<close>, the error of \<open>fileFilter\<close>; else, when the file has more
  than \<open>5 * 1024 * 1024\<close> bytes, multer's \<open>LIMIT_FILE_SIZE\<close>; else the redirect.  A file
  that was not there before is in the file system afterwards only when all three
  checks passed.  The session names its user, as every session the server makes does.
\<close>

theorem upload_validation_order:
  assumes "session_ok w"
  shows "(\<not> requireLogin (sess w) \<longrightarrow>
            upload now rnd U (Some f) w = (Status 401 Unauthorized, w))
       \<and> (requireLogin (sess w) \<and> toLowerCase (extname (originalname f)) \<notin> {''.lua'', ''.txt''} \<longrightarrow>
            upload now rnd U (Some f) w = (Failed FileTypeNotAllowed, w))
       \<and> (requireLogin (sess w) \<and> toLowerCase (extname (originalname f)) \<in> {''.lua'', ''.txt''}
            \<and> 5 * 1024 * 1024 < length (content f) \<longrightarrow>
            fst (upload now rnd U (Some f) w) = Failed LIMIT_FILE_SIZE)
       \<and> (requireLogin (sess w) \<and> toLowerCase (extname (originalname f)) \<in> {''.lua'', ''.txt''}
            \<and> length (content f) \<le> 5 * 1024 * 1024 \<longrightarrow>
            fst (upload now rnd U (Some f) w) = Redirect ''/'')
       \<and> (\<forall>p bytes. fs (snd (upload now rnd U (Some f) w)) p = Some (File bytes)
              \<and> fs w p \<noteq> Some (File bytes) \<longrightarrow>
            requireLogin (sess w) \<and> toLowerCase (extname (originalname f)) \<in> {''.lua'', ''.txt''}
            \<and> length (content f) \<le> 5 * 1024 * 1024)"
  using assms
  by (auto simp: upload_def session_ok_def requireLogin_def fileFilter_def destination_def
        ALLOWED_EXT_def overLimit_def fileSize_def Let_def ensureDir_def existsSync_def
      split: option.splits if_splits)

theorem upload_validation_order_witness:
  "session_ok example_logged_in
   \<and> upload 17 42 ''/app/uploads'' (Some \<lparr>originalname = ''script.LUA'', content = ''print(1)''\<rparr>)
        example_world = (Status 401 Unauthorized, example_world)
   \<and> upload 17 42 ''/app/uploads'' (Some \<lparr>originalname = ''image.png'', content = ''print(1)''\<rparr>)
        example_logged_in = (Failed FileTypeNotAllowed, example_logged_in)
   \<and> fst (upload 17 42 ''/app/uploads''
        (Some \<lparr>originalname = ''script.LUA'', content = ''print(1)''\<rparr>) example_logged_in)
       = Redirect ''/''"
proof -
  let ?lua = "\<lparr>originalname = ''script.LUA'', content = ''print(1)''\<rparr>"
  let ?png = "\<lparr>originalname = ''image.png'', content = ''print(1)''\<rparr>"
  have ok0: "session_ok example_world"
    by (simp add: session_ok_def example_world_def)
  have ok1: "session_ok example_logged_in"
    by (simp add: session_ok_def example_logged_in_def)
  have out: "\<not> requireLogin (sess example_world)"
    by (simp add: requireLogin_def example_world_def)
  have inside: "requireLogin (sess example_logged_in)"
    by (simp add: requireLogin_def example_logged_in_def)
  have png: "toLowerCase (extname (originalname ?png)) \<notin> {''.lua'', ''.txt''}" by code_simp
  have lua: "toLowerCase (extname (originalname ?lua)) \<in> {''.lua'', ''.txt''}" by code_simp
  have small: "length (content ?lua) \<le> 5 * 1024 * 1024" by simp
  have a: "upload 17 42 ''/app/uploads'' (Some ?lua) example_world
             = (Status 401 Unauthorized, example_world)"
    using upload_validation_order [OF ok0, of 17 42 "''/app/uploads''" ?lua] out by blast
  have b: "upload 17 42 ''/app/uploads'' (Some ?png) example_logged_in
             = (Failed FileTypeNotAllowed, example_logged_in)"
    using upload_validation_order [OF ok1, of 17 42 "''/app/uploads''" ?png] inside png by blast
  have c: "fst (upload 17 42 ''/app/uploads'' (Some ?lua) example_logged_in) = Redirect ''/''"
    using upload_validation_order [OF ok1, of 17 42 "''/app/uploads''" ?lua] inside lua small by blast
  show ?thesis using ok1 a b c by blast
qed


lemma length_example_bytes: "length (example_bytes n) = n"
  by (simp add: example_bytes_def)

text \<open>
  Claim C6.  With a logged-in session and an original name \<open>fileFilter\<close> accepts, a file
  of exactly \<open>5 * 1024 * 1024\<close> bytes is stored under the generated name and answered
  with the redirect; a file of one byte more is refused with \<open>LIMIT_FILE_SIZE\<close> and no
  file appears.  The limit is the constant of line 76; the comparison is \<open>overLimit\<close>.
\<close>

theorem upload_size_boundary:
  assumes "requireLogin (sess w)" and "session_ok w" and "fileFilter (originalname f) = Inr True"
  shows "(length (content f) = 5 * 1024 * 1024 \<longrightarrow>
            fst (upload now rnd U (Some f) w) = Redirect ''/''
            \<and> fs (snd (upload now rnd U (Some f) w))
                 (path_join (path_join U (sanitize (session_username (the (sess w)))))
                    (filename now rnd (originalname f)))
                = Some (File (content f)))
       \<and> (length (content f) = 5 * 1024 * 1024 + 1 \<longrightarrow>
            fst (upload now rnd U (Some f) w) = Failed LIMIT_FILE_SIZE
            \<and> (\<forall>p bytes. fs (snd (upload now rnd U (Some f) w)) p = Some (File bytes)
                  \<longrightarrow> fs w p = Some (File bytes)))"
  using assms
  by (auto simp: upload_def session_ok_def requireLogin_def destination_def
        overLimit_def fileSize_def Let_def ensureDir_def existsSync_def
      split: option.splits if_splits)

theorem upload_size_boundary_witness:
  "fst (upload 17 42 ''/app/uploads''
          (Some \<lparr>originalname = ''script.lua'', content = example_bytes (5 * 1024 * 1024)\<rparr>)
          example_logged_in) = Redirect ''/''
   \<and> fst (upload 17 42 ''/app/uploads''
          (Some \<lparr>originalname = ''script.lua'', content = example_bytes (5 * 1024 * 1024 + 1)\<rparr>)
          example_logged_in) = Failed LIMIT_FILE_SIZE"
proof -
  let ?at = "\<lparr>originalname = ''script.lua'', content = example_bytes (5 * 1024 * 1024)\<rparr>"
  let ?over = "\<lparr>originalname = ''script.lua'', content = example_bytes (5 * 1024 * 1024 + 1)\<rparr>"
  have inside: "requireLogin (sess example_logged_in)"
    by (simp add: requireLogin_def example_logged_in_def)
  have ok: "session_ok example_logged_in"
    by (simp add: session_ok_def example_logged_in_def)
  have ext: "fileFilter ''script.lua'' = Inr True" by code_simp
  have ext_at: "fileFilter (originalname ?at) = Inr True" using ext by simp
  have ext_over: "fileFilter (originalname ?over) = Inr True" using ext by simp
  have len_at: "length (content ?at) = 5 * 1024 * 1024"
    by (simp add: length_example_bytes)
  have len_over: "length (content ?over) = 5 * 1024 * 1024 + 1"
    by (simp add: length_example_bytes)
  have a: "fst (upload 17 42 ''/app/uploads'' (Some ?at) example_logged_in) = Redirect ''/''"
    using upload_size_boundary [OF inside ok ext_at, of 17 42 "''/app/uploads''"] len_at by blast
  have b: "fst (upload 17 42 ''/app/uploads'' (Some ?over) example_logged_in)
             = Failed LIMIT_FILE_SIZE"
    using upload_size_boundary [OF inside ok ext_over, of 17 42 "''/app/uploads''"] len_over
    by blast
  show ?thesis using a b by blast
qed

text \<open>
  Claim C10.  The stored name is the decimal timestamp, \<open>-\<close>, the decimal random
  number, \<open>-\<close>, and then the sanitized original name, or \<open>file\<close> when sanitizing leaves
  nothing.  So the stored name is never empty, and its last component is non-empty, is
  a value of the sanitizer (\<open>file\<close> is one: the sanitizer leaves it as it is) and holds
  neither \<open>/\<close> nor \<open>\\<close>.
\<close>

theorem stored_filename_shape:
  "\<exists>name. filename now rnd orig = number_toString now @ ''-'' @ number_toString rnd @ ''-'' @ name
      \<and> name = (if sanitize orig = [] then ''file'' else sanitize orig)
      \<and> name \<noteq> [] \<and> name \<in> range sanitize
      \<and> CHR ''/'' \<notin> set name \<and> CHR 0x5C \<notin> set name
      \<and> filename now rnd orig \<noteq> []"
proof (cases "sanitize orig = []")
  case True
  have "''file'' \<in> range sanitize"
    using sanitize_file by (metis rangeI)
  with True show ?thesis by (simp add: filename_def)
next
  case False
  with sanitize_no_separator [of orig] show ?thesis by (simp add: filename_def)
qed

lemma number_toString_17: "number_toString 17 = ''17''"
  by code_simp

lemma number_toString_42: "number_toString 42 = ''42''"
  by code_simp

lemma sanitize_con_lua: "sanitize ''con.lua'' = []"
  by code_simp

theorem stored_filename_shape_witness:
  "filename 17 42 ''con.lua'' = ''17-42-file''"
proof -
  obtain name where n: "filename 17 42 ''con.lua''
        = number_toString 17 @ ''-'' @ number_toString 42 @ ''-'' @ name"
      "name = (if sanitize ''con.lua'' = [] then ''file'' else sanitize ''con.lua'')"
    using stored_filename_shape [of 17 42 "''con.lua''"] by blast
  from n(2) have "name = ''file''" by (simp add: sanitize_con_lua)
  with n(1) show ?thesis by (simp add: number_toString_17 number_toString_42)
qed

subsection \<open>Raw file server\<close>

text \<open>
  Claim C1.  The handler compares strings: \<open>filePath.startsWith(userDir)\<close>, with no
  separator after \<open>userDir\<close>.  A sibling directory whose name continues the username
  passes the test.  For the user \<open>alice\<close> and the decoded file name
  \<open>../alice2/17-42-secret.txt\<close> the handler sends the file of \<open>alice2\<close>, which lies
  outside \<open>/app/uploads/alice/\<close>.
\<close>

theorem raw_serves_sibling_directory:
  "raw ''/app/uploads'' example_fs ''alice'' ''../alice2/17-42-secret.txt''
     = SendFile ''/app/uploads/alice2/17-42-secret.txt''
   \<and> sent example_fs (raw ''/app/uploads'' example_fs ''alice'' ''../alice2/17-42-secret.txt'')
     = Some ''secret''
   \<and> \<not> startsWith ''/app/uploads/alice2/17-42-secret.txt''
         (path_resolve ''/app/uploads'' (sanitize ''alice'') @ ''/'')"
  by code_simp

lemma raw_responses:
  "(raw U f u n = Status 400 BadRequest) = (\<not> startsWith (raw_filePath U u n) (raw_userDir U u))
   \<and> (raw U f u n = Status 404 NotFound)
       = (startsWith (raw_filePath U u n) (raw_userDir U u) \<and> \<not> existsSync f (raw_filePath U u n))
   \<and> (raw U f u n = SendFile (raw_filePath U u n))
       = (startsWith (raw_filePath U u n) (raw_userDir U u) \<and> existsSync f (raw_filePath U u n))"
  by (simp add: raw_def raw_filePath_def raw_userDir_def Let_def)

lemma sendFile_strict_streams:
  "sendFile True f p = Bytes bs \<Longrightarrow> sendFile strict f p = Bytes bs"
  by (auto simp: sendFile_def dotfileIgnored_def Let_def split: if_splits)




subsection \<open>Usernames at registration\<close>

lemma sanitize_changes_unsafe:
  assumes "name \<noteq> []"
    and "CHR ''/'' \<in> set name \<or> CHR 0x5C \<in> set name \<or> set name \<subseteq> {CHR ''.''}"
  shows "sanitize name \<noteq> name"
  using assms sanitize_no_separator [of name] sanitize_periods [of name] by metis

text \<open>
  Claim C2, as the handler decides it.  For a non-empty username and a non-empty
  password the registration is refused with status 400 and the message of line 84,
  the state staying as it was, whenever the sanitizer changes the username.  It
  changes every username that holds \<open>/\<close> or \<open>\\<close> and every username made of periods
  only (\<open>.\<close>, \<open>..\<close>).  A username the sanitizer leaves alone is refused as a duplicate
  when it is in the store, and is otherwise accepted and appended to the store under
  exactly the name that was sent.  So no username is sanitized and then accepted.
\<close>

theorem register_username_policy:
  assumes "name \<noteq> []" and "pw \<noteq> []"
  shows "(sanitize name \<noteq> name \<longrightarrow>
            register hashSync U (Some name) (Some pw) w = (Status 400 InvalidUsername, w))
       \<and> (CHR ''/'' \<in> set name \<or> CHR 0x5C \<in> set name \<or> set name \<subseteq> {CHR ''.''} \<longrightarrow>
            sanitize name \<noteq> name)
       \<and> (sanitize name = name \<and> find (\<lambda>u. username u = name) (users (store w)) \<noteq> None \<longrightarrow>
            register hashSync U (Some name) (Some pw) w = (Status 400 UserExists, w))
       \<and> (sanitize name = name \<and> find (\<lambda>u. username u = name) (users (store w)) = None \<longrightarrow>
            fst (register hashSync U (Some name) (Some pw) w) = Ok name
            \<and> users (store (snd (register hashSync U (Some name) (Some pw) w)))
                = users (store w)
                  @ [\<lparr>user_id = nextId (store w), username = name, passwordHash = hashSync pw\<rparr>])"
proof -
  have unsafe: "CHR ''/'' \<in> set name \<or> CHR 0x5C \<in> set name \<or> set name \<subseteq> {CHR ''.''} \<longrightarrow>
            sanitize name \<noteq> name"
    using sanitize_changes_unsafe [OF assms(1)] by blast
  show ?thesis
    using assms unsafe by (simp add: register_def falsy_def Let_def)
qed

theorem register_username_policy_witness:
  "register example_hash ''/app/uploads'' (Some ''../bob'') (Some ''pw'') example_world
     = (Status 400 InvalidUsername, example_world)
   \<and> register example_hash ''/app/uploads'' (Some ''..'') (Some ''pw'') example_world
     = (Status 400 InvalidUsername, example_world)
   \<and> register example_hash ''/app/uploads'' (Some ''alice'') (Some ''pw'') example_world
     = (Status 400 UserExists, example_world)
   \<and> users (store (snd (register example_hash ''/app/uploads'' (Some ''bob'') (Some ''pw'')
        example_world)))
     = users (store example_world)
       @ [\<lparr>user_id = nextId (store example_world), username = ''bob'',
           passwordHash = example_hash ''pw''\<rparr>]"
proof -
  have p: "''pw'' \<noteq> []" by simp
  have a: "CHR ''/'' \<in> set ''../bob''" by simp
  have b: "set ''..'' \<subseteq> {CHR ''.''}" by simp
  have c: "sanitize ''alice'' = ''alice''" by code_simp
  have c': "find (\<lambda>u. username u = ''alice'') (users (store example_world)) \<noteq> None"
    by (simp add: example_world_def)
  have d: "find (\<lambda>u. username u = ''bob'') (users (store example_world)) = None"
    by (simp add: example_world_def)
  have r1: "register example_hash ''/app/uploads'' (Some ''../bob'') (Some ''pw'') example_world
              = (Status 400 InvalidUsername, example_world)"
    using register_username_policy [of "''../bob''" "''pw''" example_hash "''/app/uploads''"
        example_world] a by blast
  have r2: "register example_hash ''/app/uploads'' (Some ''..'') (Some ''pw'') example_world
              = (Status 400 InvalidUsername, example_world)"
    using register_username_policy [of "''..''" "''pw''" example_hash "''/app/uploads''"
        example_world] b by blast
  have r3: "register example_hash ''/app/uploads'' (Some ''alice'') (Some ''pw'') example_world
              = (Status 400 UserExists, example_world)"
    using register_username_policy [of "''alice''" "''pw''" example_hash "''/app/uploads''"
        example_world] c c' by blast
  have r4: "users (store (snd (register example_hash ''/app/uploads'' (Some ''bob'') (Some ''pw'')
        example_world)))
     = users (store example_world)
       @ [\<lparr>user_id = nextId (store example_world), username = ''bob'',
           passwordHash = example_hash ''pw''\<rparr>]"
    using register_username_policy [of "''bob''" "''pw''" example_hash "''/app/uploads''"
        example_world] sanitize_bob d by blast
  show ?thesis using r1 r2 r3 r4 by blast
qed

text \<open>
  The claim as written refuses every username that holds \<open>..\<close>.  The sanitizer does
  not change \<open>a..b\<close>, so its registration succeeds.
\<close>

lemma sanitize_a_b: "sanitize ''a..b'' = ''a..b''"
  by code_simp

theorem register_accepts_inner_periods:
  "fst (register example_hash ''/app/uploads'' (Some ''a..b'') (Some ''pw'') example_world) = Ok ''a..b''
   \<and> take 2 (drop 1 ''a..b'') = ''..''
   \<and> map username (users (store (snd (register example_hash ''/app/uploads'' (Some ''a..b'')
        (Some ''pw'') example_world)))) = [''alice'', ''a..b'']"
  by (simp add: register_def falsy_def example_world_def example_hash_def Let_def sanitize_a_b)

subsection \<open>Sanitizing twice\<close>

text \<open>
  Claim C4, where it holds.  A second pass changes nothing when the first result is
  not a reserved Windows device name (alone or with an extension) and does not end
  in a period or a space.  The first pass removes such names before it strips the
  end, and truncates last, so both can come back in its result.
\<close>

theorem sanitize_stable:
  assumes "\<not> windowsReservedRe (sanitize x)"
    and "sanitize x = [] \<or> \<not> trailing (last (sanitize x))"
  shows "sanitize (sanitize x) = sanitize x"
proof -
  let ?s = "sanitize x"
  have r: "\<not> reservedRe ?s" using assms(2) reservedRe_trailing [of ?s] by blast
  have "sanitize ?s = truncateBytes 255 0 (stripTrailing ?s)"
    unfolding sanitize_def [of ?s] Let_def filter_sanitize using r assms(1) by simp
  also have "\<dots> = truncateBytes 255 0 ?s"
    using stripTrailing_id [OF assms(2)] by simp
  also have "\<dots> = ?s"
    using truncateBytes_id [of 0 ?s 255] bytes_sanitize [of x] by simp
  finally show ?thesis .
qed

theorem sanitize_stable_witness:
  "\<not> windowsReservedRe (sanitize ''my script.lua '')
   \<and> sanitize ''my script.lua '' = ''my script.lua''
   \<and> sanitize (sanitize ''my script.lua '') = sanitize ''my script.lua ''"
proof -
  have a: "\<not> windowsReservedRe (sanitize ''my script.lua '')" by code_simp
  have v: "sanitize ''my script.lua '' = ''my script.lua''" by code_simp
  have b: "sanitize ''my script.lua '' = [] \<or> \<not> trailing (last (sanitize ''my script.lua ''))"
    unfolding v by (simp add: trailing_def)
  show ?thesis using sanitize_stable [OF a b] a v by simp
qed

text \<open>
  \<open>con\<close> followed by a space is not a device name for the fourth replacement, the
  fifth strips the space, and a second pass removes the \<open>con\<close> that is left.
\<close>

theorem sanitize_not_idempotent:
  "sanitize ''con '' = ''con'' \<and> sanitize (sanitize ''con '') = []
   \<and> sanitize (sanitize ''con '') \<noteq> sanitize ''con ''"
  by code_simp

end
